theory Spec2Isabelle
  imports Complex_Main "HOL-Library.AList"
begin

section \<open>The purchase controller of \<open>src/buying/src/Buy.tsx\<close>\<close>

text \<open>
  The file holds one async function, \<open>buy\<close>, and one React component, \<open>List\<close>, whose
  state is six \<open>useState\<close> cells and whose behaviour is three handlers:
  \<open>handleOnChange\<close> (checkbox), the click handler of "Load tokens to buy" and the click
  handler of "Buy Tokens". The component state is a record that each handler takes and
  returns. Everything a handler does beyond setting state (\<open>alert\<close>, calls of the wallet
  connector, of \<open>buy\<close>, of the SDK's \<open>buyToken\<close>, of the progress callback and of
  \<open>console.error\<close>) is appended to a list of effects, in program order. An exception
  leaving a function is \<open>Inl\<close> of the result.

  The collaborators that are not part of the file (\<open>getTokens\<close>, \<open>buyToken\<close>, the wallet
  connector) are parameters: what one invocation of them does is given as a value.
\<close>

subsection \<open>Values\<close>

text \<open>A JavaScript number, as far as \<open>Boolean\<close> can tell numbers apart.\<close>

datatype js_number = Num rat | PosInfinity | NegInfinity | NaN

text \<open>An \<open>Error\<close> object; the file reads only its \<open>message\<close>.\<close>

datatype js_error = JsError (error_message: string)

text \<open>
  What a function of the file can throw: the \<open>ReferenceError('Missing a signer')\<close> that
  \<open>buy\<close> creates itself (line 16), or an error object raised by a collaborator and passed on.
\<close>

datatype thrown = MissingSigner | Raised js_error

text \<open>The settlement of a promise returned by a collaborator.\<close>

datatype 'a settled = Resolved 'a | Rejected js_error

datatype signer = Signer string

text \<open>
  \<open>Token\<close> is imported from \<open>./getTokens\<close>; the component reads three fields of it. The
  field \<open>contract\<close> of a token is named \<open>token_contract\<close> here, since the component state
  has a cell \<open>contract\<close> too.
\<close>

record Token =
  token_contract :: string
  tokenId :: string
  floorAskPrice :: "js_number option"

text \<open>One entry of \<open>Execute['steps']\<close>: a status and an optional message.\<close>

datatype step_status = Incomplete | Complete | Error

record step =
  status :: step_status
  message :: "string option"

text \<open>
  \<open>BuyingQuery\<close> is an object whose properties are assigned by computed key
  (\<open>query[`tokens[${index}]`] = ...\<close>): an association list in insertion order.
\<close>

type_synonym BuyingQuery = "(string \<times> string) list"

subsection \<open>The external execution process\<close>

text \<open>
  \<open>buyToken\<close> is handed three callbacks. One invocation of it is described by the calls it
  makes of them, in order, and by how its promise settles.
\<close>

datatype sdk_call = SetState "step list option" | HandleSuccess | HandleError js_error

type_synonym execution = "sdk_call list \<times> unit settled"

subsection \<open>Effects\<close>

datatype effect =
    Alert string
  | Connect
  | Buy BuyingQuery
  | BuyToken BuyingQuery signer string
  | Progress string
  | ConsoleError js_error

subsection \<open>\<open>Boolean\<close> on an optional number (line 112)\<close>

fun Boolean :: "js_number option \<Rightarrow> bool" where
  "Boolean None = False"
| "Boolean (Some (Num r)) = (r \<noteq> 0)"
| "Boolean (Some NaN) = False"
| "Boolean (Some PosInfinity) = True"
| "Boolean (Some NegInfinity) = True"

subsection \<open>Template strings\<close>

text \<open>\<open>`${index}`\<close> renders an array index in decimal, without leading zeros.\<close>

definition digit :: "nat \<Rightarrow> char" where
  "digit d = ''0123456789'' ! d"

function string_of_nat :: "nat \<Rightarrow> string" where
  "string_of_nat n =
     (if n < 10 then [digit n] else string_of_nat (n div 10) @ [digit (n mod 10)])"
  by pat_completeness auto
termination
  by (relation "measure (\<lambda>n. n)") auto

declare string_of_nat.simps [simp del]

text \<open>\<open>`tokens[${index}]`\<close> (line 182).\<close>

definition tokens_key :: "nat \<Rightarrow> string" where
  "tokens_key index = ''tokens['' @ string_of_nat index @ '']''"

text \<open>\<open>`${contract}:${tokenId}`\<close> (line 182).\<close>

definition encode_token :: "string \<Rightarrow> string \<Rightarrow> string" where
  "encode_token contract tid = contract @ '':'' @ tid"

subsection \<open>\<open>buy\<close> (lines 9 to 54)\<close>

definition apiBase :: string where
  "apiBase = ''https://api-rinkeby.reservoir.tools''"

text \<open>
  The \<open>setState\<close> callback (lines 31 to 40): the messages it passes to \<open>progressCallback\<close>.
  \<open>steps.find\<close> returns the first entry whose status is \<open>'incomplete'\<close>.
\<close>

definition setState :: "step list option \<Rightarrow> string list" where
  "setState steps =
     (case steps of
        None \<Rightarrow> []
      | Some ss \<Rightarrow>
          (case find (\<lambda>s. status s = Incomplete) ss of
             None \<Rightarrow> []
           | Some currentStep \<Rightarrow>
               [case message currentStep of None \<Rightarrow> '''' | Some m \<Rightarrow> m]))"

text \<open>\<open>handleSuccess\<close> (lines 41 to 43) and \<open>handleError\<close> (lines 44 to 46).\<close>

definition handleSuccess :: "string list" where
  "handleSuccess = [''Success'']"

definition handleError :: "js_error \<Rightarrow> string list" where
  "handleError err = [''Error: '' @ error_message err]"

text \<open>What one callback invocation passes to \<open>progressCallback\<close>.\<close>

fun callback :: "sdk_call \<Rightarrow> string list" where
  "callback (SetState steps) = setState steps"
| "callback HandleSuccess = handleSuccess"
| "callback (HandleError err) = handleError err"

text \<open>
  \<open>buy\<close> returns its effects and either \<open>true\<close> or what it throws. With no signer it throws
  before the \<open>try\<close>; an error thrown by \<open>buyToken\<close> is logged and thrown again.
\<close>

definition buy :: "BuyingQuery \<Rightarrow> signer option \<Rightarrow> execution \<Rightarrow> effect list \<times> (thrown + bool)" where
  "buy query sg ex =
     (case sg of
        None \<Rightarrow> ([], Inl MissingSigner)
      | Some s \<Rightarrow>
          (let relayed = map Progress (concat (map callback (fst ex)))
           in case snd ex of
                Resolved _ \<Rightarrow> (BuyToken query s apiBase # relayed, Inr True)
              | Rejected err \<Rightarrow>
                  (BuyToken query s apiBase # relayed @ [ConsoleError err], Inl (Raised err))))"

subsection \<open>The component \<open>List\<close> (lines 56 to 214)\<close>

record session =
  progressText :: string
  loading :: bool
  errorText :: string
  tokens :: "Token list"
  contract :: string
  selectedTokenIds :: "string list"

text \<open>The initial values of the \<open>useState\<close> cells (lines 61 to 68).\<close>

definition initial :: session where
  "initial = \<lparr>progressText = '''', loading = False, errorText = '''', tokens = [],
     contract = ''0x4d68e14cd7dec510c84326f54ee41f88e8fad59b'', selectedTokenIds = []\<rparr>"

text \<open>What the wagmi hooks report (lines 57 to 60).\<close>

record wallet =
  wallet_signer :: "signer option"
  account_address :: "string option"
  isConnected :: bool
  activeChain_id :: "int option"

text \<open>\<open>handleOnChange\<close> (lines 72 to 85), on the list of selected ids.\<close>

definition handleOnChange :: "string \<Rightarrow> string list \<Rightarrow> string list" where
  "handleOnChange tid sel =
     (if tid \<in> set sel then filter (\<lambda>selectedTokenId. tid \<noteq> selectedTokenId) sel
      else sel @ [tid])"

definition toggle :: "string \<Rightarrow> session \<Rightarrow> session" where
  "toggle tid st = st\<lparr>selectedTokenIds := handleOnChange tid (selectedTokenIds st)\<rparr>"

text \<open>The text input's \<open>onChange\<close> (line 102).\<close>

definition setContract :: "string \<Rightarrow> session \<Rightarrow> session" where
  "setContract c st = st\<lparr>contract := c\<rparr>"

text \<open>
  The click handler of "Load tokens to buy" (lines 106 to 118). \<open>getTokens\<close> is the
  catalog: what its promise settles to for a contract address.
\<close>

definition no_tokens_text :: string where
  "no_tokens_text = ''There are no tokens available to purchase.''"

definition load_tokens_onClick ::
  "(string \<Rightarrow> Token list settled) \<Rightarrow> session \<Rightarrow> session \<times> (thrown + unit)" where
  "load_tokens_onClick getTokens st =
     (let st1 = st\<lparr>errorText := '''', loading := True\<rparr>
      in case getTokens (contract st) of
           Rejected err \<Rightarrow> (st1, Inl (Raised err))
         | Resolved fetched \<Rightarrow>
             (let st2 = st1\<lparr>loading := False\<rparr>;
                  filteredTokens = filter (\<lambda>t. Boolean (floorAskPrice t)) fetched;
                  st3 = (if length filteredTokens = 0 then st2\<lparr>errorText := no_tokens_text\<rparr>
                         else st2)
              in (st3\<lparr>tokens := filteredTokens\<rparr>, Inr ())))"

text \<open>
  The query construction (lines 175 to 183). Assigning a property replaces the value of a
  key that exists and appends a new key otherwise, which is \<open>AList.update\<close>.
\<close>

definition build_query :: "string \<Rightarrow> string \<Rightarrow> string list \<Rightarrow> BuyingQuery" where
  "build_query taker c sel =
     fold (\<lambda>(index, tid) query. AList.update (tokens_key index) (encode_token c tid) query)
       (enumerate 0 sel) [(''taker'', taker)]"

text \<open>The progress callback is \<open>setProgressText\<close>: each message replaces the cell.\<close>

fun progress_messages :: "effect list \<Rightarrow> string list" where
  "progress_messages [] = []"
| "progress_messages (Progress m # es) = m # progress_messages es"
| "progress_messages (e # es) = progress_messages es"

definition setProgressText :: "string list \<Rightarrow> session \<Rightarrow> session" where
  "setProgressText ms st = fold (\<lambda>m s. s\<lparr>progressText := m\<rparr>) ms st"

definition wrong_network_text :: string where
  "wrong_network_text =
     ''You are connected to the wrong network. Please, switch to the Rinkeby Test Network.''"

text \<open>
  The click handler of "Buy Tokens" (lines 152 to 188). \<open>account?.address\<close> is falsy when
  it is absent or the empty string. \<open>connect\<close> is how \<open>connector.connect()\<close> settles, should
  it be called.
\<close>

definition buy_tokens_onClick ::
  "wallet \<Rightarrow> unit settled \<Rightarrow> execution \<Rightarrow> session \<Rightarrow> session \<times> effect list \<times> (thrown + unit)" where
  "buy_tokens_onClick w connect ex st =
     (let st1 = st\<lparr>loading := True\<rparr>
      in if activeChain_id w \<noteq> Some 4 then
           (st1\<lparr>loading := False\<rparr>, [Alert wrong_network_text], Inr ())
         else case account_address w of
           None \<Rightarrow> (st1\<lparr>loading := False\<rparr>, [], Inr ())
         | Some taker \<Rightarrow>
             if taker = [] then (st1\<lparr>loading := False\<rparr>, [], Inr ())
             else
               (let connecting = (if isConnected w then [] else [Connect])
                in case (if isConnected w then Resolved () else connect) of
                     Rejected err \<Rightarrow> (st1, connecting, Inl (Raised err))
                   | Resolved _ \<Rightarrow>
                       (let st2 = st1\<lparr>progressText := ''''\<rparr>;
                            query = build_query taker (contract st) (selectedTokenIds st);
                            (effs, res) = buy query (wallet_signer w) ex;
                            st3 = setProgressText (progress_messages effs) st2
                        in case res of
                             Inl err \<Rightarrow> (st3, connecting @ Buy query # effs, Inl err)
                           | Inr _ \<Rightarrow>
                               (st3\<lparr>loading := False\<rparr>, connecting @ Buy query # effs, Inr ()))))"

text \<open>What is rendered (lines 91, 123, 134 to 147 and 150 to 151).\<close>

definition checkbox_rendered :: "wallet \<Rightarrow> session \<Rightarrow> string \<Rightarrow> bool" where
  "checkbox_rendered w st tid = (isConnected w \<and> tid \<in> set (map tokenId (tokens st)))"

definition buy_button_enabled :: "wallet \<Rightarrow> session \<Rightarrow> bool" where
  "buy_button_enabled w st = (isConnected w \<and> length (tokens st) > 0 \<and> \<not> loading st)"

subsection \<open>Reading a query and an execution\<close>

text \<open>The values of the properties of a query other than \<open>taker\<close>: the encoded items.\<close>

definition query_items :: "BuyingQuery \<Rightarrow> string list" where
  "query_items query = map snd (filter (\<lambda>(k, v). k \<noteq> ''taker'') query)"

text \<open>The two callbacks that end a submission.\<close>

fun terminal :: "sdk_call \<Rightarrow> bool" where
  "terminal (SetState steps) = False"
| "terminal HandleSuccess = True"
| "terminal (HandleError err) = True"

subsection \<open>Sample inputs\<close>

text \<open>A connected wallet on network 4 (Rinkeby), and the same wallet on network 1.\<close>

definition wallet_rinkeby :: wallet where
  "wallet_rinkeby = \<lparr>wallet_signer = Some (Signer ''0xb0b''), account_address = Some ''0xb0b'',
     isConnected = True, activeChain_id = Some 4\<rparr>"

definition wallet_mainnet :: wallet where
  "wallet_mainnet = \<lparr>wallet_signer = Some (Signer ''0xb0b''), account_address = Some ''0xb0b'',
     isConnected = True, activeChain_id = Some 1\<rparr>"

text \<open>
  A catalog with two collections. In \<open>0xX\<close> token 1 has a price. In \<open>0xY\<close> token 1 has
  floor price 0 and token 2 has a price.
\<close>

definition sample_getTokens :: "string \<Rightarrow> Token list settled" where
  "sample_getTokens c =
     (if c = ''0xX'' then
        Resolved [\<lparr>token_contract = ''0xX'', tokenId = ''1'', floorAskPrice = Some (Num 1)\<rparr>]
      else if c = ''0xY'' then
        Resolved [\<lparr>token_contract = ''0xY'', tokenId = ''1'', floorAskPrice = Some (Num 0)\<rparr>,
                  \<lparr>token_contract = ''0xY'', tokenId = ''2'', floorAskPrice = Some (Num 2)\<rparr>]
      else Resolved [])"

text \<open>The session after typing \<open>0xX\<close> and loading its tokens; nothing is selected.\<close>

definition session_loaded :: session where
  "session_loaded = fst (load_tokens_onClick sample_getTokens (setContract ''0xX'' initial))"

text \<open>Then the checkbox of token 1 is ticked.\<close>

definition session_selected :: session where
  "session_selected = toggle ''1'' session_loaded"

text \<open>Then \<open>0xY\<close> is typed and its tokens are loaded.\<close>

definition session_reloaded :: session where
  "session_reloaded = fst (load_tokens_onClick sample_getTokens (setContract ''0xY'' session_selected))"

section \<open>Auxiliary facts\<close>

subsection \<open>Decimal indices and query keys\<close>

lemma digit_inj: "a < 10 \<Longrightarrow> b < 10 \<Longrightarrow> digit a = digit b \<Longrightarrow> a = b"
proof -
  assume a: "a < 10" and b: "b < 10" and e: "digit a = digit b"
  have A: "a \<in> {0, 1, 2, 3, 4, 5, 6, 7, 8, 9}" using a by auto
  have B: "b \<in> {0, 1, 2, 3, 4, 5, 6, 7, 8, 9}" using b by auto
  show ?thesis using A B e by (auto simp: digit_def)
qed

lemma string_of_nat_nonempty: "string_of_nat n \<noteq> []"
  by (subst string_of_nat.simps) simp

lemma string_of_nat_nonempty': "[] \<noteq> string_of_nat n"
  using string_of_nat_nonempty [of n] by simp

lemma string_of_nat_small: "n < 10 \<Longrightarrow> string_of_nat n = [digit n]"
  by (subst string_of_nat.simps) simp

lemma string_of_nat_large:
  "\<not> n < 10 \<Longrightarrow> string_of_nat n = string_of_nat (n div 10) @ [digit (n mod 10)]"
  by (subst string_of_nat.simps) simp

lemma string_of_nat_inj: "string_of_nat n = string_of_nat m \<Longrightarrow> n = m"
proof (induction n arbitrary: m rule: string_of_nat.induct)
  case (1 n)
  show ?case
  proof (cases "n < 10")
    case True
    note n = this
    show ?thesis
    proof (cases "m < 10")
      case True
      with n "1.prems" show ?thesis
        by (simp add: string_of_nat_small digit_inj)
    next
      case False
      with n "1.prems" show ?thesis
        by (simp add: string_of_nat_small string_of_nat_large string_of_nat_nonempty')
    qed
  next
    case False
    note n = this
    show ?thesis
    proof (cases "m < 10")
      case True
      with n "1.prems" show ?thesis
        by (simp add: string_of_nat_small string_of_nat_large string_of_nat_nonempty)
    next
      case False
      with n "1.prems" have eq: "string_of_nat (n div 10) = string_of_nat (m div 10)"
        and d: "digit (n mod 10) = digit (m mod 10)"
        by (simp_all add: string_of_nat_large)
      from "1.IH" [OF n eq] have q: "n div 10 = m div 10" .
      from d have r: "n mod 10 = m mod 10" by (simp add: digit_inj)
      from q r show ?thesis by (metis div_mult_mod_eq)
    qed
  qed
qed

lemma tokens_key_inj: "tokens_key i = tokens_key j \<Longrightarrow> i = j"
  by (simp add: tokens_key_def string_of_nat_inj)

lemma tokens_key_not_taker: "tokens_key i \<noteq> ''taker''"
  by (simp add: tokens_key_def)

lemma tokens_key_0: "tokens_key 0 = ''tokens[0]''"
  by (simp add: tokens_key_def string_of_nat.simps digit_def)

subsection \<open>The query is the taker followed by one entry per selected id\<close>

lemma update_fresh: "k \<notin> fst ` set q \<Longrightarrow> AList.update k v q = q @ [(k, v)]"
  by (induction q) auto

lemma fold_assign_fresh:
  "distinct (map fst its) \<Longrightarrow> (\<forall>i \<in> fst ` set its. tokens_key i \<notin> fst ` set q) \<Longrightarrow>
   fold (\<lambda>(index, tid) query. AList.update (tokens_key index) (encode_token c tid) query) its q
     = q @ map (\<lambda>(index, tid). (tokens_key index, encode_token c tid)) its"
proof (induction its arbitrary: q)
  case Nil
  then show ?case by simp
next
  case (Cons p its)
  obtain i t where p: "p = (i, t)" by (cases p)
  have fresh: "tokens_key i \<notin> fst ` set q" using Cons.prems(2) p by simp
  have d: "distinct (map fst its)" and ni: "i \<notin> fst ` set its"
    using Cons.prems(1) p by auto
  have rest: "\<forall>j \<in> fst ` set its. tokens_key j \<notin> fst ` set (q @ [(tokens_key i, encode_token c t)])"
  proof
    fix j assume j: "j \<in> fst ` set its"
    then have "j \<noteq> i" using ni by auto
    then have "tokens_key j \<noteq> tokens_key i" using tokens_key_inj by blast
    moreover have "tokens_key j \<notin> fst ` set q" using Cons.prems(2) j by auto
    ultimately show "tokens_key j \<notin> fst ` set (q @ [(tokens_key i, encode_token c t)])"
      by auto
  qed
  show ?case
    using Cons.IH [OF d rest] by (simp add: p update_fresh [OF fresh])
qed

lemma build_query_eq:
  "build_query taker c sel
     = (''taker'', taker) # map (\<lambda>(index, tid). (tokens_key index, encode_token c tid)) (enumerate 0 sel)"
  unfolding build_query_def
  by (subst fold_assign_fresh) (auto simp: tokens_key_not_taker)

lemma build_query_Nil: "build_query taker c [] = [(''taker'', taker)]"
  by (simp add: build_query_def)

lemma build_query_single:
  "build_query taker c [tid] = [(''taker'', taker), (''tokens[0]'', encode_token c tid)]"
  by (simp add: build_query_def tokens_key_0)

lemma map_snd_enumerate_comp: "map (\<lambda>x. f (snd x)) (enumerate n xs) = map f xs"
  by (induction xs arbitrary: n) simp_all

lemma query_items_build:
  "query_items (build_query taker c sel) = map (encode_token c) sel"
  by (simp add: build_query_eq query_items_def tokens_key_not_taker filter_map o_def
      case_prod_unfold map_snd_enumerate_comp)

subsection \<open>Selection\<close>

lemma member_handleOnChange:
  "(tid \<in> set (handleOnChange tid sel)) = (tid \<notin> set sel)"
  by (simp add: handleOnChange_def)

subsection \<open>Progress messages\<close>

lemma progress_messages_append:
  "progress_messages (xs @ ys) = progress_messages xs @ progress_messages ys"
  by (induction xs rule: progress_messages.induct) simp_all

lemma progress_messages_map: "progress_messages (map Progress ms) = ms"
  by (induction ms) simp_all

lemma buy_relays:
  "progress_messages (fst (buy query (Some s) ex)) = concat (map callback (fst ex))"
  by (simp add: buy_def Let_def progress_messages_append progress_messages_map
      split: settled.splits)

lemma callback_terminal: "terminal t \<Longrightarrow> length (callback t) = 1"
  by (cases t) (simp_all add: handleSuccess_def handleError_def)

lemma progressText_setProgressText:
  "progressText (setProgressText ms st) = (if ms = [] then progressText st else last ms)"
  unfolding setProgressText_def
  by (induction ms arbitrary: st) simp_all

lemma loading_setProgressText: "loading (setProgressText ms st) = loading st"
  unfolding setProgressText_def
  by (induction ms arbitrary: st) simp_all

lemma failed_precondition_silent:
  "activeChain_id w \<noteq> Some 4 \<or> account_address w = None \<or> account_address w = Some []
     \<or> wallet_signer w = None \<Longrightarrow>
   progress_messages (fst (snd (buy_tokens_onClick w connect ex st))) = []"
  by (auto simp: buy_tokens_onClick_def Let_def buy_def split: option.splits settled.splits)

lemma find_first:
  "\<forall>x \<in> set pre. \<not> P x \<Longrightarrow> P cur \<Longrightarrow> find P (pre @ cur # rest) = Some cur"
  by (induction pre) simp_all

lemma find_none: "\<forall>x \<in> set xs. \<not> P x \<Longrightarrow> find P xs = None"
  by (induction xs) simp_all

subsection \<open>Truthiness of a price\<close>

lemma Boolean_falsy: "Boolean p = (p \<notin> {None, Some (Num 0), Some NaN})"
  by (cases p rule: Boolean.cases) simp_all

subsection \<open>The sample sessions, evaluated\<close>

lemma session_loaded_eq:
  "session_loaded = \<lparr>progressText = '''', loading = False, errorText = '''',
     tokens = [\<lparr>token_contract = ''0xX'', tokenId = ''1'', floorAskPrice = Some (Num 1)\<rparr>],
     contract = ''0xX'', selectedTokenIds = []\<rparr>"
  by (simp add: session_loaded_def load_tokens_onClick_def sample_getTokens_def setContract_def
      initial_def)

lemma session_selected_eq:
  "session_selected = \<lparr>progressText = '''', loading = False, errorText = '''',
     tokens = [\<lparr>token_contract = ''0xX'', tokenId = ''1'', floorAskPrice = Some (Num 1)\<rparr>],
     contract = ''0xX'', selectedTokenIds = [''1'']\<rparr>"
  by (simp add: session_selected_def session_loaded_eq toggle_def handleOnChange_def)

lemma session_reloaded_eq:
  "session_reloaded = \<lparr>progressText = '''', loading = False, errorText = '''',
     tokens = [\<lparr>token_contract = ''0xY'', tokenId = ''2'', floorAskPrice = Some (Num 2)\<rparr>],
     contract = ''0xY'', selectedTokenIds = [''1'']\<rparr>"
  by (simp add: session_reloaded_def session_selected_eq load_tokens_onClick_def
      sample_getTokens_def setContract_def)

section \<open>The claims\<close>

subsection \<open>C1: an empty selection\<close>

text \<open>
  C1 as stated: with an empty selection the submit operation rejects and neither \<open>buy\<close>
  nor \<open>buyToken\<close> is called. The handler has no check of the selection. With one token
  loaded and none selected the button is enabled, and a click calls \<open>buy\<close> and
  \<open>buyToken\<close> with a query that holds the taker only.
\<close>

theorem empty_selection_counterexample:
  "selectedTokenIds session_loaded = [] \<and> buy_button_enabled wallet_rinkeby session_loaded
   \<and> buy_tokens_onClick wallet_rinkeby (Resolved ()) ([HandleSuccess], Resolved ()) session_loaded
     = (session_loaded\<lparr>progressText := ''Success''\<rparr>,
        [Buy [(''taker'', ''0xb0b'')],
         BuyToken [(''taker'', ''0xb0b'')] (Signer ''0xb0b'') apiBase,
         Progress ''Success''],
        Inr ())"
  by (simp add: session_loaded_eq buy_button_enabled_def wallet_rinkeby_def
      buy_tokens_onClick_def build_query_Nil buy_def handleSuccess_def setProgressText_def Let_def)

text \<open>
  C1, amended: an empty selection is not rejected. Once the network and account checks
  pass, with a connected wallet and a signer, the handler builds the query that holds only
  the taker and calls \<open>buy\<close> and then \<open>buyToken\<close> with it.
\<close>

theorem empty_selection_submitted:
  "activeChain_id w = Some 4 \<Longrightarrow> account_address w = Some taker \<Longrightarrow> taker \<noteq> [] \<Longrightarrow>
   isConnected w \<Longrightarrow> wallet_signer w = Some s \<Longrightarrow> selectedTokenIds st = [] \<Longrightarrow>
   take 2 (fst (snd (buy_tokens_onClick w connect ex st)))
     = [Buy [(''taker'', taker)], BuyToken [(''taker'', taker)] s apiBase]"
  by (simp add: buy_tokens_onClick_def build_query_Nil buy_def Let_def split: settled.splits)

theorem empty_selection_submitted_witness:
  "activeChain_id wallet_rinkeby = Some 4 \<and> account_address wallet_rinkeby = Some ''0xb0b''
   \<and> ''0xb0b'' \<noteq> [] \<and> isConnected wallet_rinkeby
   \<and> wallet_signer wallet_rinkeby = Some (Signer ''0xb0b'')
   \<and> selectedTokenIds session_loaded = []
   \<and> take 2 (fst (snd (buy_tokens_onClick wallet_rinkeby (Resolved ())
         ([HandleSuccess], Resolved ()) session_loaded)))
     = [Buy [(''taker'', ''0xb0b'')], BuyToken [(''taker'', ''0xb0b'')] (Signer ''0xb0b'') apiBase]"
  using empty_selection_submitted [of wallet_rinkeby "''0xb0b''" "Signer ''0xb0b''" session_loaded
      "Resolved ()" "([HandleSuccess], Resolved ())"]
  by (simp add: wallet_rinkeby_def session_loaded_eq)

subsection \<open>C2: the selection across a catalog fetch\<close>

text \<open>
  C2 as stated: after the load-tokens operation the set of selected ids is empty. The
  handler never writes \<open>selectedTokenIds\<close>: with token 1 selected, a fetch leaves it selected.
\<close>

theorem fetch_keeps_selection_counterexample:
  "selectedTokenIds session_selected = [''1'']
   \<and> selectedTokenIds (fst (load_tokens_onClick sample_getTokens session_selected)) = [''1'']"
  by (simp add: session_selected_eq load_tokens_onClick_def sample_getTokens_def)

text \<open>
  C2, amended: a catalog fetch leaves the selection as it was, whether the fetch resolves
  or rejects; every id selected before the fetch is selected after it.
\<close>

theorem load_keeps_selection:
  "selectedTokenIds (fst (load_tokens_onClick getTokens st)) = selectedTokenIds st"
  by (simp add: load_tokens_onClick_def Let_def split: settled.splits)

subsection \<open>C3: an execution process that throws\<close>

text \<open>
  C3: when \<open>buyToken\<close> throws, \<open>buy\<close> catches the error, logs it and throws it again. The
  click handler does not catch it, so the \<open>setLoading(false)\<close> that ends the handler is
  not reached: the error is the handler's outcome, \<open>console.error\<close> is its last effect,
  the only messages are those the process sent through the callbacks, and \<open>loading\<close> stays
  true. The paths that return early and the path on which \<open>buy\<close> returns all reset it.
\<close>

theorem rejection_leaves_loading:
  "activeChain_id w = Some 4 \<Longrightarrow> account_address w = Some taker \<Longrightarrow> taker \<noteq> [] \<Longrightarrow>
   isConnected w \<Longrightarrow> wallet_signer w = Some s \<Longrightarrow> snd ex = Rejected err \<Longrightarrow>
   loading (fst (buy_tokens_onClick w connect ex st)) = True
   \<and> snd (snd (buy_tokens_onClick w connect ex st)) = Inl (Raised err)
   \<and> last (fst (snd (buy_tokens_onClick w connect ex st))) = ConsoleError err
   \<and> progress_messages (fst (snd (buy_tokens_onClick w connect ex st)))
       = concat (map callback (fst ex))"
  by (simp add: buy_tokens_onClick_def buy_def Let_def loading_setProgressText
      progress_messages_append progress_messages_map)

theorem rejection_leaves_loading_witness:
  "activeChain_id wallet_rinkeby = Some 4 \<and> account_address wallet_rinkeby = Some ''0xb0b''
   \<and> ''0xb0b'' \<noteq> [] \<and> isConnected wallet_rinkeby
   \<and> wallet_signer wallet_rinkeby = Some (Signer ''0xb0b'')
   \<and> snd ([] :: sdk_call list, Rejected (JsError ''rejected'') :: unit settled)
       = Rejected (JsError ''rejected'')
   \<and> loading session_selected = False
   \<and> loading (fst (buy_tokens_onClick wallet_rinkeby (Resolved ())
         ([], Rejected (JsError ''rejected'')) session_selected)) = True
   \<and> snd (snd (buy_tokens_onClick wallet_rinkeby (Resolved ())
         ([], Rejected (JsError ''rejected'')) session_selected)) = Inl (Raised (JsError ''rejected''))
   \<and> last (fst (snd (buy_tokens_onClick wallet_rinkeby (Resolved ())
         ([], Rejected (JsError ''rejected'')) session_selected))) = ConsoleError (JsError ''rejected'')
   \<and> progress_messages (fst (snd (buy_tokens_onClick wallet_rinkeby (Resolved ())
         ([], Rejected (JsError ''rejected'')) session_selected))) = []"
  using rejection_leaves_loading [of wallet_rinkeby "''0xb0b''" "Signer ''0xb0b''"
      "([], Rejected (JsError ''rejected''))" "JsError ''rejected''" "Resolved ()" session_selected]
  by (simp add: wallet_rinkeby_def session_selected_eq)

subsection \<open>C4: the order of the messages\<close>

text \<open>
  C4 as stated: for every sequence of notifications no message follows a terminal
  message. \<open>buy\<close> keeps no state between callbacks: a step notification that arrives
  after \<open>handleSuccess\<close> is relayed after \<open>Success\<close>.
\<close>

theorem message_after_terminal_counterexample:
  "progress_messages (fst (buy [(''taker'', ''0xb0b'')] (Some (Signer ''0xb0b''))
      ([HandleSuccess, SetState (Some [\<lparr>status = Incomplete, message = Some ''Confirming''\<rparr>])],
       Resolved ())))
   = [''Success'', ''Confirming'']"
  by (simp add: buy_def handleSuccess_def setState_def)

text \<open>
  C4, amended: when the execution process makes zero or more step notifications and then
  exactly one terminal call (success or error), the progress callback receives, in order,
  the messages of those notifications and then exactly one terminal message; and a
  submission that stops at a failed precondition (wrong network, no account address, no
  signer) sends no message.
\<close>

theorem relay_in_order:
  "(terminal t \<longrightarrow>
      progress_messages (fst (buy query (Some s) (map SetState ns @ [t], out)))
        = concat (map setState ns) @ callback t
      \<and> length (callback t) = 1)
   \<and> (activeChain_id w \<noteq> Some 4 \<or> account_address w = None \<or> account_address w = Some []
        \<or> wallet_signer w = None \<longrightarrow>
        progress_messages (fst (snd (buy_tokens_onClick w connect ex st))) = [])"
  using failed_precondition_silent [of w connect ex st]
  by (simp add: buy_relays callback_terminal o_def)

theorem relay_in_order_witness:
  "terminal HandleSuccess
   \<and> progress_messages (fst (buy [(''taker'', ''0xb0b'')] (Some (Signer ''0xb0b''))
        (map SetState [Some [\<lparr>status = Incomplete, message = Some ''Approving''\<rparr>],
                        Some [\<lparr>status = Incomplete, message = Some ''Confirming''\<rparr>]]
           @ [HandleSuccess], Resolved ())))
     = [''Approving'', ''Confirming'', ''Success'']
   \<and> account_address (wallet_rinkeby\<lparr>account_address := None\<rparr>) = None
   \<and> progress_messages (fst (snd (buy_tokens_onClick (wallet_rinkeby\<lparr>account_address := None\<rparr>)
        (Resolved ()) ([HandleSuccess], Resolved ()) session_selected))) = []"
  using relay_in_order [of HandleSuccess "[(''taker'', ''0xb0b'')]" "Signer ''0xb0b''"
      "[Some [\<lparr>status = Incomplete, message = Some ''Approving''\<rparr>],
        Some [\<lparr>status = Incomplete, message = Some ''Confirming''\<rparr>]]"
      "Resolved ()" "wallet_rinkeby\<lparr>account_address := None\<rparr>" "Resolved ()"
      "([HandleSuccess], Resolved ())" session_selected]
  by (simp add: setState_def handleSuccess_def)

subsection \<open>C5: the wrong network\<close>

text \<open>
  C5: when the active network id is not 4 (or there is no active chain), the handler
  alerts the user to switch network and returns: the session is the one before the click
  with \<open>loading\<close> false, the alert is the only effect, so \<open>buy\<close> is not called, whatever
  the connector and the execution process would have done.
\<close>

theorem wrong_network_aborts:
  "activeChain_id w \<noteq> Some 4 \<Longrightarrow>
   buy_tokens_onClick w connect ex st = (st\<lparr>loading := False\<rparr>, [Alert wrong_network_text], Inr ())"
  by (simp add: buy_tokens_onClick_def)

theorem wrong_network_aborts_witness:
  "activeChain_id wallet_mainnet \<noteq> Some 4
   \<and> buy_tokens_onClick wallet_mainnet (Resolved ()) ([HandleSuccess], Resolved ()) session_selected
     = (session_selected\<lparr>loading := False\<rparr>, [Alert wrong_network_text], Inr ())"
  using wrong_network_aborts [of wallet_mainnet "Resolved ()" "([HandleSuccess], Resolved ())"
      session_selected]
  by (simp add: wallet_mainnet_def)

subsection \<open>C6: which step's message is shown\<close>

text \<open>
  C6 as stated: a notification emits the message of the most recently seen incomplete
  step. \<open>steps.find\<close> stops at the first incomplete step of the sequence: of two
  incomplete steps the message of the earlier one is emitted, not that of the later one.
\<close>

theorem first_incomplete_counterexample:
  "setState (Some [\<lparr>status = Incomplete, message = Some ''Approving''\<rparr>,
                   \<lparr>status = Incomplete, message = Some ''Confirming''\<rparr>]) = [''Approving'']
   \<and> setState (Some [\<lparr>status = Incomplete, message = Some ''Approving''\<rparr>,
                     \<lparr>status = Incomplete, message = Some ''Confirming''\<rparr>]) \<noteq> [''Confirming'']"
  by (simp add: setState_def)

text \<open>
  C6, amended: a notification emits the message of the first incomplete step of its
  sequence (the empty string when that step has no message) and nothing else; a
  notification with no incomplete step, or with no steps at all, emits nothing; and each
  emitted message overwrites the progress text, so that only the last one is kept.
\<close>

theorem first_incomplete_emitted:
  "((\<forall>p \<in> set pre. status p \<noteq> Incomplete) \<and> status cur = Incomplete \<longrightarrow>
      setState (Some (pre @ cur # rest)) = [case message cur of None \<Rightarrow> '''' | Some m \<Rightarrow> m])
   \<and> ((\<forall>p \<in> set ss. status p \<noteq> Incomplete) \<longrightarrow> setState (Some ss) = [])
   \<and> setState None = []
   \<and> progressText (setProgressText (ms @ [m]) st) = m"
  by (simp add: setState_def find_first find_none progressText_setProgressText)

theorem first_incomplete_emitted_witness:
  "status \<lparr>status = Complete, message = Some ''Approving''\<rparr> \<noteq> Incomplete
   \<and> status \<lparr>status = Incomplete, message = Some ''Confirming''\<rparr> = Incomplete
   \<and> setState (Some ([\<lparr>status = Complete, message = Some ''Approving''\<rparr>]
        @ \<lparr>status = Incomplete, message = Some ''Confirming''\<rparr>
        # [\<lparr>status = Incomplete, message = Some ''Finalizing''\<rparr>])) = [''Confirming'']
   \<and> status \<lparr>status = Error, message = None\<rparr> \<noteq> Incomplete
   \<and> setState (Some [\<lparr>status = Complete, message = Some ''Approving''\<rparr>,
                     \<lparr>status = Error, message = None\<rparr>]) = []
   \<and> progressText (setProgressText ([''Approving''] @ [''Confirming'']) session_selected)
       = ''Confirming''"
  using first_incomplete_emitted [of "[\<lparr>status = Complete, message = Some ''Approving''\<rparr>]"
      "\<lparr>status = Incomplete, message = Some ''Confirming''\<rparr>"
      "[\<lparr>status = Incomplete, message = Some ''Finalizing''\<rparr>]"
      "[\<lparr>status = Complete, message = Some ''Approving''\<rparr>, \<lparr>status = Error, message = None\<rparr>]"
      "[''Approving'']" "''Confirming''" session_selected]
  by simp

subsection \<open>C7: the missing signer\<close>

text \<open>
  C7: \<open>buy\<close> throws its \<open>ReferenceError('Missing a signer')\<close> exactly when the signer is
  absent, and in that case it has had no effect: \<open>buyToken\<close> has not been called.
\<close>

theorem missing_signer_iff:
  "(snd (buy query sg ex) = Inl MissingSigner) = (sg = None)
   \<and> fst (buy query None ex) = []"
  by (auto simp: buy_def Let_def split: option.splits settled.splits)

subsection \<open>C8: the encoded items\<close>

text \<open>
  C8: the built query is the taker followed by one property \<open>tokens[i]\<close> per selected
  id, in selection order, whose value is the string \<open>contract:id\<close>; so the items of the
  query are the encodings of the selected ids. For the contract \<open>0xC\<close>, ticking A then B
  and ticking B then A both give the set of \<open>0xC:A\<close> and \<open>0xC:B\<close>.
\<close>

theorem encoded_items:
  "build_query taker c sel
     = (''taker'', taker) # map (\<lambda>(index, tid). (tokens_key index, encode_token c tid)) (enumerate 0 sel)
   \<and> set (query_items (build_query taker c sel)) = encode_token c ` set sel
   \<and> set (query_items (build_query taker ''0xC'' (handleOnChange ''B'' (handleOnChange ''A'' []))))
       = {''0xC:A'', ''0xC:B''}
   \<and> set (query_items (build_query taker ''0xC'' (handleOnChange ''A'' (handleOnChange ''B'' []))))
       = {''0xC:A'', ''0xC:B''}"
proof (intro conjI)
  show "build_query taker c sel
     = (''taker'', taker) # map (\<lambda>(index, tid). (tokens_key index, encode_token c tid)) (enumerate 0 sel)"
    by (rule build_query_eq)
  show "set (query_items (build_query taker c sel)) = encode_token c ` set sel"
    by (simp add: query_items_build)
  show "set (query_items (build_query taker ''0xC'' (handleOnChange ''B'' (handleOnChange ''A'' []))))
       = {''0xC:A'', ''0xC:B''}"
    by (simp add: query_items_build handleOnChange_def encode_token_def)
  show "set (query_items (build_query taker ''0xC'' (handleOnChange ''A'' (handleOnChange ''B'' []))))
       = {''0xC:A'', ''0xC:B''}"
    by (auto simp: query_items_build handleOnChange_def encode_token_def)
qed

subsection \<open>C9: toggling an id\<close>

text \<open>
  C9: after \<open>n\<close> toggles of one id, the id is selected exactly when its membership before
  and the evenness of \<open>n\<close> agree: an even number of toggles restores the membership, an odd
  number flips it.
\<close>

theorem toggle_parity:
  "(tid \<in> set ((handleOnChange tid ^^ n) sel)) = ((tid \<in> set sel) = even n)"
  by (induction n) (auto simp: member_handleOnChange)

subsection \<open>C10: the catalog filter\<close>

text \<open>
  C10 as stated: since the filter drops the items whose floor price is absent or 0, a
  zero-priced item can never be submitted. The filter acts on the rows, not on the
  selection, and the selection holds ids without their contract. Token 1 of \<open>0xX\<close> is
  ticked; then \<open>0xY\<close> is loaded, whose token 1 has floor price 0 and gets no checkbox;
  the button is enabled by token 2, and a click submits \<open>0xY:1\<close>.
\<close>

theorem zero_price_submitted_counterexample:
  "sample_getTokens ''0xY''
     = Resolved [\<lparr>token_contract = ''0xY'', tokenId = ''1'', floorAskPrice = Some (Num 0)\<rparr>,
                 \<lparr>token_contract = ''0xY'', tokenId = ''2'', floorAskPrice = Some (Num 2)\<rparr>]
   \<and> checkbox_rendered wallet_rinkeby session_loaded ''1''
   \<and> \<not> checkbox_rendered wallet_rinkeby session_reloaded ''1''
   \<and> buy_button_enabled wallet_rinkeby session_reloaded
   \<and> fst (snd (buy_tokens_onClick wallet_rinkeby (Resolved ()) ([HandleSuccess], Resolved ())
        session_reloaded))
     = [Buy [(''taker'', ''0xb0b''), (''tokens[0]'', ''0xY:1'')],
        BuyToken [(''taker'', ''0xb0b''), (''tokens[0]'', ''0xY:1'')] (Signer ''0xb0b'') apiBase,
        Progress ''Success'']"
  by (simp add: sample_getTokens_def checkbox_rendered_def buy_button_enabled_def
      session_loaded_eq session_reloaded_eq wallet_rinkeby_def buy_tokens_onClick_def
      build_query_single encode_token_def buy_def handleSuccess_def Let_def)

text \<open>
  C10, amended: after a fetch that resolves, the displayed tokens are exactly the fetched
  items whose floor price is truthy, in the order fetched: the items with an absent price,
  with price 0 or with price NaN are dropped, so no displayed row has an absent or zero price.
\<close>

theorem filter_keeps_truthy:
  "getTokens (contract st) = Resolved fetched \<Longrightarrow>
   tokens (fst (load_tokens_onClick getTokens st))
     = filter (\<lambda>t. floorAskPrice t \<notin> {None, Some (Num 0), Some NaN}) fetched
   \<and> (\<forall>t \<in> set (tokens (fst (load_tokens_onClick getTokens st))).
         t \<in> set fetched \<and> floorAskPrice t \<noteq> None \<and> floorAskPrice t \<noteq> Some (Num 0))"
  by (simp add: load_tokens_onClick_def Let_def Boolean_falsy)

theorem filter_keeps_truthy_witness:
  "sample_getTokens (contract (setContract ''0xY'' session_selected))
     = Resolved [\<lparr>token_contract = ''0xY'', tokenId = ''1'', floorAskPrice = Some (Num 0)\<rparr>,
                 \<lparr>token_contract = ''0xY'', tokenId = ''2'', floorAskPrice = Some (Num 2)\<rparr>]
   \<and> tokens (fst (load_tokens_onClick sample_getTokens (setContract ''0xY'' session_selected)))
     = [\<lparr>token_contract = ''0xY'', tokenId = ''2'', floorAskPrice = Some (Num 2)\<rparr>]"
  using filter_keeps_truthy [of sample_getTokens "setContract ''0xY'' session_selected"
      "[\<lparr>token_contract = ''0xY'', tokenId = ''1'', floorAskPrice = Some (Num 0)\<rparr>,
        \<lparr>token_contract = ''0xY'', tokenId = ''2'', floorAskPrice = Some (Num 2)\<rparr>]"]
  by (simp add: sample_getTokens_def setContract_def)

end
